theory Spec2Isabelle
  imports Complex_Main "HOL-Library.Word"
begin

section \<open>Data model of \<open>geometrical_acoustics/scene_manager.cc\<close>\<close>

text \<open>
  The scene manager only copies floating-point values, it never computes with them, so
  the type of a \<open>float\<close> is a parameter \<open>'f\<close>. A reflection kernel is copied by value into
  the registry and is a parameter \<open>'k\<close>. An \<open>unsigned int\<close> (and the \<open>int\<close> slots of the index
  buffer, which hold the same 32 bits) is a \<open>32 word\<close>; a \<open>size_t\<close> that is the size of a
  vector, or a position in one, is a \<open>nat\<close>. The member names of the class lose their
  trailing underscore.
\<close>

type_synonym uint = "32 word"

record 'f Vertex =
  Vertex_x :: 'f
  Vertex_y :: 'f
  Vertex_z :: 'f

record Triangle =
  v0 :: uint
  v1 :: uint
  v2 :: uint

record 'f AcousticListener =
  position :: "'f \<times> 'f \<times> 'f"

record 'f Sphere =
  center :: "'f \<times> 'f \<times> 'f"
  radius :: 'f
  geometry_id :: uint

text \<open>
  \<open>struct EmbreeVertex { float x, y, z, a; }\<close>. A slot of a buffer that
  \<open>rtcSetNewGeometryBuffer\<close> has just allocated holds nothing yet: \<open>None\<close>.
\<close>

record 'f EmbreeVertex =
  EmbreeVertex_x :: "'f option"
  EmbreeVertex_y :: "'f option"
  EmbreeVertex_z :: "'f option"
  EmbreeVertex_a :: "'f option"

subsection \<open>The acceleration structure, as the scene manager drives it\<close>

text \<open>
  The ray-tracing engine is an external library. What follows records what the manager
  hands to it: geometry objects live in a store of the device and are addressed by
  handle (\<open>RTCGeometry\<close>), because the manager keeps configuring a geometry through its
  handle after it has attached it to a scene and released its own reference. A geometry
  is reference counted: \<open>rtcNewGeometry\<close> returns it with one reference, attaching it to
  a scene adds one, \<open>rtcReleaseGeometry\<close> drops one and destroys the object with the
  last. The pointer stored by \<open>rtcSetGeometryUserData\<close> is the array of spheres it points
  to (\<open>None\<close> is the null pointer).
\<close>

datatype RTCGeometryType = RTC_GEOMETRY_TYPE_TRIANGLE | RTC_GEOMETRY_TYPE_USER

datatype RTCBuildQuality =
  RTC_BUILD_QUALITY_LOW | RTC_BUILD_QUALITY_MEDIUM | RTC_BUILD_QUALITY_HIGH

datatype FunctionPtr = Ptr_EmbreeSphereBoundsFunction | Ptr_EmbreeSphereIntersectFunction

record 'f RTCGeometryObj =
  geometry_type :: RTCGeometryType
  build_quality :: RTCBuildQuality
  time_step_count :: nat
  user_primitive_count :: nat
  vertex_buffer :: "'f EmbreeVertex list"
  index_buffer :: "uint option list"
  user_data :: "'f Sphere list option"
  bounds_function :: "FunctionPtr option"
  intersect_function :: "FunctionPtr option"
  ref_count :: nat

record 'f RTCDevice =
  geometries :: "nat \<rightharpoonup> 'f RTCGeometryObj"
  next_handle :: nat

text \<open>A scene lists the geometries attached to it, each under its geometry identifier.\<close>

record RTCSceneObj =
  attached :: "(uint \<times> nat) list"
  committed :: bool

definition update_geometry ::
  "nat \<Rightarrow> ('f RTCGeometryObj \<Rightarrow> 'f RTCGeometryObj) \<Rightarrow> 'f RTCDevice \<Rightarrow> 'f RTCDevice" where
  "update_geometry h f d =
     (case geometries d h of
        None \<Rightarrow> d
      | Some g \<Rightarrow> d\<lparr>geometries := (geometries d)(h \<mapsto> f g)\<rparr>)"

definition rtcNewDevice :: "'f RTCDevice" where
  "rtcNewDevice = \<lparr>geometries = Map.empty, next_handle = 0\<rparr>"

definition rtcNewScene :: RTCSceneObj where
  "rtcNewScene = \<lparr>attached = [], committed = False\<rparr>"

definition rtcNewGeometry :: "RTCGeometryType \<Rightarrow> 'f RTCDevice \<Rightarrow> nat \<times> 'f RTCDevice" where
  "rtcNewGeometry ty d =
     (next_handle d,
      d\<lparr>geometries := (geometries d)(next_handle d \<mapsto>
           \<lparr>geometry_type = ty, build_quality = RTC_BUILD_QUALITY_MEDIUM,
            time_step_count = 1, user_primitive_count = 0,
            vertex_buffer = [], index_buffer = [], user_data = None,
            bounds_function = None, intersect_function = None, ref_count = 1\<rparr>),
        next_handle := Suc (next_handle d)\<rparr>)"

definition rtcSetGeometryBuildQuality ::
  "nat \<Rightarrow> RTCBuildQuality \<Rightarrow> 'f RTCDevice \<Rightarrow> 'f RTCDevice" where
  "rtcSetGeometryBuildQuality h q = update_geometry h (\<lambda>g. g\<lparr>build_quality := q\<rparr>)"

definition rtcSetGeometryTimeStepCount :: "nat \<Rightarrow> nat \<Rightarrow> 'f RTCDevice \<Rightarrow> 'f RTCDevice" where
  "rtcSetGeometryTimeStepCount h n = update_geometry h (\<lambda>g. g\<lparr>time_step_count := n\<rparr>)"

definition rtcSetGeometryUserPrimitiveCount ::
  "nat \<Rightarrow> nat \<Rightarrow> 'f RTCDevice \<Rightarrow> 'f RTCDevice" where
  "rtcSetGeometryUserPrimitiveCount h n =
     update_geometry h (\<lambda>g. g\<lparr>user_primitive_count := n\<rparr>)"

definition rtcSetGeometryUserData ::
  "nat \<Rightarrow> 'f Sphere list option \<Rightarrow> 'f RTCDevice \<Rightarrow> 'f RTCDevice" where
  "rtcSetGeometryUserData h p = update_geometry h (\<lambda>g. g\<lparr>user_data := p\<rparr>)"

definition rtcSetGeometryBoundsFunction ::
  "nat \<Rightarrow> FunctionPtr \<Rightarrow> 'f RTCDevice \<Rightarrow> 'f RTCDevice" where
  "rtcSetGeometryBoundsFunction h f = update_geometry h (\<lambda>g. g\<lparr>bounds_function := Some f\<rparr>)"

definition rtcSetGeometryIntersectFunction ::
  "nat \<Rightarrow> FunctionPtr \<Rightarrow> 'f RTCDevice \<Rightarrow> 'f RTCDevice" where
  "rtcSetGeometryIntersectFunction h f =
     update_geometry h (\<lambda>g. g\<lparr>intersect_function := Some f\<rparr>)"

text \<open>
  \<open>rtcAttachGeometry\<close> returns the identifier the engine assigns. The engine's policy is
  the parameter \<open>ids\<close>: \<open>ids n\<close> is the identifier given to a geometry attached to a scene
  that already holds \<open>n\<close> geometries.
\<close>

definition rtcAttachGeometry ::
  "(nat \<Rightarrow> uint) \<Rightarrow> RTCSceneObj \<Rightarrow> nat \<Rightarrow> 'f RTCDevice \<Rightarrow> uint \<times> RTCSceneObj \<times> 'f RTCDevice" where
  "rtcAttachGeometry ids sc h d =
     (let gid = ids (length (attached sc))
      in (gid, sc\<lparr>attached := attached sc @ [(gid, h)]\<rparr>,
          update_geometry h (\<lambda>g. g\<lparr>ref_count := Suc (ref_count g)\<rparr>) d))"

definition rtcReleaseGeometry :: "nat \<Rightarrow> 'f RTCDevice \<Rightarrow> 'f RTCDevice" where
  "rtcReleaseGeometry h d =
     (case geometries d h of
        None \<Rightarrow> d
      | Some g \<Rightarrow>
          if ref_count g \<le> 1 then d\<lparr>geometries := (geometries d)(h := None)\<rparr>
          else d\<lparr>geometries := (geometries d)(h \<mapsto> g\<lparr>ref_count := ref_count g - 1\<rparr>)\<rparr>)"

text \<open>The manager holds the only reference to a scene: releasing it lets go of its geometries.\<close>

definition rtcReleaseScene :: "RTCSceneObj \<Rightarrow> 'f RTCDevice \<Rightarrow> 'f RTCDevice" where
  "rtcReleaseScene sc d = fold (\<lambda>(gid, h). rtcReleaseGeometry h) (attached sc) d"

definition rtcCommitScene :: "RTCSceneObj \<Rightarrow> RTCSceneObj" where
  "rtcCommitScene sc = sc\<lparr>committed := True\<rparr>"

text \<open>
  \<open>rtcSetNewGeometryBuffer\<close> gives the geometry a new buffer of \<open>n\<close> items and returns a
  pointer to it. The manager fills the buffer through that pointer, the only access path
  to it: the loops below run on the buffer's contents, which are then the geometry's.
\<close>

definition new_vertex_buffer :: "nat \<Rightarrow> 'f EmbreeVertex list" where
  "new_vertex_buffer n =
     replicate n \<lparr>EmbreeVertex_x = None, EmbreeVertex_y = None,
                  EmbreeVertex_z = None, EmbreeVertex_a = None\<rparr>"

definition new_index_buffer :: "nat \<Rightarrow> uint option list" where
  "new_index_buffer n = replicate (3 * n) None"

section \<open>The scene manager\<close>

record ('f, 'k) SceneManager =
  device :: "'f RTCDevice"
  scene :: RTCSceneObj
  listener_scene :: RTCSceneObj
  is_scene_committed :: bool
  is_listener_scene_committed :: bool
  num_vertices :: nat
  num_triangles :: nat
  reflections :: "'k list"
  triangle_to_reflection_map :: "uint \<rightharpoonup> nat"
  sphere_to_listener_map :: "uint \<rightharpoonup> nat"

text \<open>
  \<open>SceneManager::SceneManager()\<close>: one device, two empty scenes. The other members are
  declared in the class header, which is not part of the sources at hand; they start
  empty, at zero and at false.
\<close>

definition SceneManager_new :: "('f, 'k) SceneManager" where
  "SceneManager_new =
     \<lparr>device = rtcNewDevice, scene = rtcNewScene, listener_scene = rtcNewScene,
      is_scene_committed = False, is_listener_scene_committed = False,
      num_vertices = 0, num_triangles = 0, reflections = [],
      triangle_to_reflection_map = Map.empty, sphere_to_listener_map = Map.empty\<rparr>"

subsection \<open>\<open>BuildScene\<close>\<close>

text \<open>The first loop of \<open>BuildScene\<close>: \<open>x\<close>, \<open>y\<close> and \<open>z\<close> are written, the padding \<open>a\<close> is not.\<close>

definition copy_vertices ::
  "'f Vertex list \<Rightarrow> nat \<Rightarrow> 'f EmbreeVertex list \<Rightarrow> 'f EmbreeVertex list" where
  "copy_vertices vertex_buffer_in n embree_vertex_array =
     fold (\<lambda>i arr. arr[i := (arr ! i)\<lparr>EmbreeVertex_x := Some (Vertex_x (vertex_buffer_in ! i)),
                                      EmbreeVertex_y := Some (Vertex_y (vertex_buffer_in ! i)),
                                      EmbreeVertex_z := Some (Vertex_z (vertex_buffer_in ! i))\<rparr>])
          [0..<n] embree_vertex_array"

text \<open>
  The second loop: \<open>{v0, v1, v2} -> {v0, v2, v1}\<close>. Both loops run over
  \<open>i < size\<close> of the vector they read and write a buffer allocated for that many items,
  so no access is out of range.
\<close>

definition copy_triangles :: "Triangle list \<Rightarrow> nat \<Rightarrow> uint option list \<Rightarrow> uint option list" where
  "copy_triangles triangle_buffer n embree_index_array =
     fold (\<lambda>i arr. arr[3 * i + 0 := Some (v0 (triangle_buffer ! i)),
                        3 * i + 1 := Some (v2 (triangle_buffer ! i)),
                        3 * i + 2 := Some (v1 (triangle_buffer ! i))])
          [0..<n] embree_index_array"

definition BuildScene ::
  "(nat \<Rightarrow> uint) \<Rightarrow> ('f, 'k) SceneManager \<Rightarrow> 'f Vertex list \<Rightarrow> Triangle list
     \<Rightarrow> ('f, 'k) SceneManager" where
  "BuildScene ids s vertex_buffer_in triangle_buffer =
     (let s1 = s\<lparr>num_vertices := length vertex_buffer_in,
                 num_triangles := length triangle_buffer\<rparr>;
          (geom_0, d1) = rtcNewGeometry RTC_GEOMETRY_TYPE_TRIANGLE (device s1);
          d2 = rtcSetGeometryBuildQuality geom_0 RTC_BUILD_QUALITY_MEDIUM d1;
          d3 = rtcSetGeometryTimeStepCount geom_0 1 d2;
          (mesh_id, sc1, d4) = rtcAttachGeometry ids (scene s1) geom_0 d3;
          d5 = rtcReleaseGeometry geom_0 d4;
          embree_vertex_array =
            copy_vertices vertex_buffer_in (num_vertices s1) (new_vertex_buffer (num_vertices s1));
          d6 = update_geometry geom_0 (\<lambda>g. g\<lparr>vertex_buffer := embree_vertex_array\<rparr>) d5;
          embree_index_array =
            copy_triangles triangle_buffer (num_triangles s1) (new_index_buffer (num_triangles s1));
          d7 = update_geometry geom_0 (\<lambda>g. g\<lparr>index_buffer := embree_index_array\<rparr>) d6
      in s1\<lparr>device := d7, scene := rtcCommitScene sc1, is_scene_committed := True\<rparr>)"

subsection \<open>\<open>AssociateReflectionKernelToTriangles\<close>\<close>

text \<open>
  The range-for over the \<open>std::unordered_set\<close>. The set is given as the sequence in which
  the loop visits its elements, an order the standard library chooses. The comparison
  \<open>triangle_index >= num_triangles_\<close> is made on the unsigned values. The \<open>bool\<close> is the
  value returned.
\<close>

fun associate_loop ::
  "nat \<Rightarrow> nat \<Rightarrow> uint list \<Rightarrow> (uint \<rightharpoonup> nat) \<Rightarrow> bool \<times> (uint \<rightharpoonup> nat)" where
  "associate_loop n reflection_index [] m = (True, m)"
| "associate_loop n reflection_index (triangle_index # rest) m =
     (if unat triangle_index \<ge> n then (False, m)
      else associate_loop n reflection_index rest (m(triangle_index \<mapsto> reflection_index)))"

definition AssociateReflectionKernelToTriangles ::
  "('f, 'k) SceneManager \<Rightarrow> 'k \<Rightarrow> uint list \<Rightarrow> bool \<times> ('f, 'k) SceneManager" where
  "AssociateReflectionKernelToTriangles s reflection triangle_indices =
     (let reflection_index = length (reflections s);
          s1 = s\<lparr>reflections := reflections s @ [reflection]\<rparr>;
          (ok, m) = associate_loop (num_triangles s1) reflection_index triangle_indices
                      (triangle_to_reflection_map s1)
      in (ok, s1\<lparr>triangle_to_reflection_map := m\<rparr>))"

subsection \<open>\<open>BuildListenerScene\<close>\<close>

text \<open>One round of the loop over the listeners, on the device, the new scene and the map.\<close>

definition add_listener_sphere ::
  "(nat \<Rightarrow> uint) \<Rightarrow> 'f \<Rightarrow> 'f AcousticListener list \<Rightarrow> nat
     \<Rightarrow> 'f RTCDevice \<times> RTCSceneObj \<times> (uint \<rightharpoonup> nat)
     \<Rightarrow> 'f RTCDevice \<times> RTCSceneObj \<times> (uint \<rightharpoonup> nat)" where
  "add_listener_sphere ids listener_sphere_radius listeners listener_index st =
     (let (d, sc, m) = st;
          listener = listeners ! listener_index;
          (geom_1, d1) = rtcNewGeometry RTC_GEOMETRY_TYPE_USER d;
          d2 = rtcSetGeometryBuildQuality geom_1 RTC_BUILD_QUALITY_MEDIUM d1;
          d3 = rtcSetGeometryUserPrimitiveCount geom_1 1 d2;
          d4 = rtcSetGeometryTimeStepCount geom_1 1 d3;
          (sphere_id, sc1, d5) = rtcAttachGeometry ids sc geom_1 d4;
          d6 = rtcReleaseGeometry geom_1 d5;
          sphere = \<lparr>center = position listener, radius = listener_sphere_radius,
                    geometry_id = sphere_id\<rparr>;
          d7 = rtcSetGeometryUserData geom_1 (Some [sphere]) d6;
          d8 = rtcSetGeometryBoundsFunction geom_1 Ptr_EmbreeSphereBoundsFunction d7;
          d9 = rtcSetGeometryIntersectFunction geom_1 Ptr_EmbreeSphereIntersectFunction d8
      in (d9, sc1, m(sphere_id \<mapsto> listener_index)))"

definition BuildListenerScene ::
  "(nat \<Rightarrow> uint) \<Rightarrow> ('f, 'k) SceneManager \<Rightarrow> 'f AcousticListener list \<Rightarrow> 'f
     \<Rightarrow> ('f, 'k) SceneManager" where
  "BuildListenerScene ids s listeners listener_sphere_radius =
     (let d0 = rtcReleaseScene (listener_scene s) (device s);
          (d, sc, m) = fold (add_listener_sphere ids listener_sphere_radius listeners)
                         [0..<length listeners] (d0, rtcNewScene, sphere_to_listener_map s)
      in s\<lparr>device := d, listener_scene := rtcCommitScene sc,
           sphere_to_listener_map := m, is_listener_scene_committed := True\<rparr>)"

subsection \<open>Looking a scene up\<close>

text \<open>
  The \<open>k\<close>-th geometry attached to a scene, with its identifier: \<open>None\<close> when the scene
  has fewer geometries or the object no longer exists in the device's store.
\<close>

definition scene_geometry ::
  "'f RTCDevice \<Rightarrow> RTCSceneObj \<Rightarrow> nat \<Rightarrow> (uint \<times> 'f RTCGeometryObj) option" where
  "scene_geometry d sc k =
     (if k < length (attached sc)
      then (case attached sc ! k of (gid, h) \<Rightarrow> map_option (Pair gid) (geometries d h))
      else None)"

text \<open>The mesh of the world scene: the geometry that the latest \<open>BuildScene\<close> attached.\<close>

definition world_mesh :: "('f, 'k) SceneManager \<Rightarrow> 'f RTCGeometryObj option" where
  "world_mesh s =
     (if attached (scene s) = [] then None
      else map_option snd
             (scene_geometry (device s) (scene s) (length (attached (scene s)) - 1)))"

text \<open>
  Modelled from the spec: the two lookups \<open>ReflectionKernelForTriangle\<close> and
  \<open>ListenerIndexForGeometry\<close> are members declared in the class header, which is not
  part of the sources at hand. The spec gives
  \<open>ReflectionKernelForTriangle(triangle_index) -> optional kernel\<close>, a triangle without
  an entry having no kernel, and
  \<open>ListenerIndexForGeometry(geometry_id) -> optional listener_index\<close>.
\<close>

definition ReflectionKernelForTriangle :: "('f, 'k) SceneManager \<Rightarrow> uint \<Rightarrow> 'k option" where
  "ReflectionKernelForTriangle s triangle_index =
     (case triangle_to_reflection_map s triangle_index of
        None \<Rightarrow> None
      | Some reflection_index \<Rightarrow>
          if reflection_index < length (reflections s)
          then Some (reflections s ! reflection_index) else None)"

definition ListenerIndexForGeometry :: "('f, 'k) SceneManager \<Rightarrow> uint \<Rightarrow> nat option" where
  "ListenerIndexForGeometry s geometry_id_in = sphere_to_listener_map s geometry_id_in"

section \<open>The intersection adapter\<close>

text \<open>
  \<open>RTCIntersectFunctionNArguments\<close>, with the fields the adapter reads: \<open>valid\<close> points to
  the validity mask, one \<open>int\<close> per ray of the batch; \<open>geometryUserPtr\<close> is the user data
  of the geometry; \<open>rayhit\<close> points to the ray/hit record, whose type \<open>'r\<close> is left open.
\<close>

record ('f, 'r) RTCIntersectFunctionNArguments =
  valid :: "uint list"
  geometryUserPtr :: "'f Sphere list option"
  primID :: uint
  rayhit :: 'r
  N :: uint

text \<open>
  How a call can end other than by returning: the \<open>assert\<close> fires, or the adapter reads
  through a null pointer or past the end of an array (undefined behaviour in C++).
\<close>

datatype failure = AssertionFailure | InvalidRead

text \<open>
  \<open>EmbreeSphereIntersectFunction\<close>. The result is the ray/hit record after the call.
  \<open>SphereIntersection\<close> is defined with the sphere primitive, outside this file, and is a
  parameter: it maps the sphere and the ray/hit record to the record it leaves.
\<close>

definition EmbreeSphereIntersectFunction ::
  "('f Sphere \<Rightarrow> 'r \<Rightarrow> 'r) \<Rightarrow> ('f, 'r) RTCIntersectFunctionNArguments \<Rightarrow> failure + 'r" where
  "EmbreeSphereIntersectFunction SphereIntersection args =
     (let vvalid_in = valid args;
          user_data_in = geometryUserPtr args;
          ray = rayhit args;
          N_in = N args;
          index = unat (primID args)
      in if N_in \<noteq> 1 then Inl AssertionFailure
         else (case vvalid_in of
                 [] \<Rightarrow> Inl InvalidRead
               | first_valid # _ \<Rightarrow>
                   if first_valid \<noteq> - 1 then Inr ray
                   else (case user_data_in of
                           None \<Rightarrow> Inl InvalidRead
                         | Some spheres \<Rightarrow>
                             if index < length spheres
                             then Inr (SphereIntersection (spheres ! index) ray)
                             else Inl InvalidRead)))"

section \<open>The key-range invariant and the states it is stated on\<close>

text \<open>Every key of the triangle-to-kernel map is below the recorded triangle count.\<close>

definition keys_in_range :: "('f, 'k) SceneManager \<Rightarrow> bool" where
  "keys_in_range s = (\<forall>k\<in>dom (triangle_to_reflection_map s). unat k < num_triangles s)"

text \<open>
  The states a manager reaches from its construction when no \<open>BuildScene\<close> call brings
  fewer triangles than the count recorded before it. An association enters with the
  state it leaves, whether it returned true or false.
\<close>

inductive reachable_growing :: "('f, 'k) SceneManager \<Rightarrow> bool" where
  constructed: "reachable_growing SceneManager_new"
| built: "reachable_growing s \<Longrightarrow> num_triangles s \<le> length T \<Longrightarrow>
          reachable_growing (BuildScene ids s V T)"
| associated: "reachable_growing s \<Longrightarrow>
          reachable_growing (snd (AssociateReflectionKernelToTriangles s K S))"
| listeners_built: "reachable_growing s \<Longrightarrow> reachable_growing (BuildListenerScene ids s L r)"

section \<open>Example states\<close>

definition unit_triangle :: Triangle where
  "unit_triangle = \<lparr>v0 = 0, v1 = 1, v2 = 2\<rparr>"

definition corner_vertices :: "real Vertex list" where
  "corner_vertices =
     [\<lparr>Vertex_x = 0, Vertex_y = 0, Vertex_z = 0\<rparr>,
      \<lparr>Vertex_x = 1, Vertex_y = 0, Vertex_z = 0\<rparr>,
      \<lparr>Vertex_x = 0, Vertex_y = 1, Vertex_z = 0\<rparr>]"

text \<open>An engine that numbers the geometries of a scene 0, 1, 2, ... as they are attached.\<close>

definition sequential_ids :: "nat \<Rightarrow> uint" where
  "sequential_ids n = of_nat n"

text \<open>A manager whose world scene holds one triangle, and one whose scene holds two.\<close>

definition one_triangle_scene :: "(real, string) SceneManager" where
  "one_triangle_scene = BuildScene sequential_ids SceneManager_new corner_vertices [unit_triangle]"

definition two_triangle_scene :: "(real, string) SceneManager" where
  "two_triangle_scene =
     BuildScene sequential_ids SceneManager_new corner_vertices [unit_triangle, unit_triangle]"

definition listener_at :: "real \<Rightarrow> real AcousticListener" where
  "listener_at px = \<lparr>position = (px, 0, 0)\<rparr>"

text \<open>Two listeners, then a rebuild of the listener scene with the first of them only.\<close>

definition two_listener_scene :: "(real, string) SceneManager" where
  "two_listener_scene =
     BuildListenerScene sequential_ids SceneManager_new [listener_at 5, listener_at 7] (1 / 2)"

definition rebuilt_listener_scene :: "(real, string) SceneManager" where
  "rebuilt_listener_scene =
     BuildListenerScene sequential_ids two_listener_scene [listener_at 5] (1 / 2)"

text \<open>
  Arguments of an adapter call for a single ray, with the slot marked valid and marked
  invalid. The ray/hit record is reduced to the distance \<open>tfar\<close>, and the stand-in for
  the sphere intersection sets it to the distance at which a ray from the origin along
  the first axis enters the sphere.
\<close>

definition valid_slot_args :: "(real, real) RTCIntersectFunctionNArguments" where
  "valid_slot_args =
     \<lparr>valid = [- 1],
      geometryUserPtr = Some [\<lparr>center = (5, 0, 0), radius = 1 / 2, geometry_id = 0\<rparr>],
      primID = 0, rayhit = 100, N = 1\<rparr>"

definition invalid_slot_args :: "(real, real) RTCIntersectFunctionNArguments" where
  "invalid_slot_args = valid_slot_args\<lparr>valid := [0]\<rparr>"

definition packet_args :: "(real, real) RTCIntersectFunctionNArguments" where
  "packet_args = valid_slot_args\<lparr>valid := [- 1, - 1, - 1, - 1], N := 4\<rparr>"

definition enter_distance :: "real Sphere \<Rightarrow> real \<Rightarrow> real" where
  "enter_distance sphere tfar = fst (center sphere) - radius sphere"

section \<open>Facts about the operations\<close>

subsection \<open>The association loop\<close>

lemma associate_loop_fst:
  "fst (associate_loop n r S m) = (\<forall>i\<in>set S. unat i < n)"
  by (induction S arbitrary: m) auto

lemma associate_loop_outside:
  "i \<notin> set S \<Longrightarrow> snd (associate_loop n r S m) i = m i"
  by (induction S arbitrary: m) auto

lemma associate_loop_inside:
  "fst (associate_loop n r S m) \<Longrightarrow> i \<in> set S \<Longrightarrow> snd (associate_loop n r S m) i = Some r"
proof (induction S arbitrary: m)
  case Nil
  then show ?case by simp
next
  case (Cons t ts)
  then show ?case
    by (cases "i \<in> set ts") (auto split: if_splits simp: associate_loop_outside)
qed

lemma associate_loop_keys:
  "\<forall>k\<in>dom m. unat k < n \<Longrightarrow> \<forall>k\<in>dom (snd (associate_loop n r S m)). unat k < n"
proof (induction S arbitrary: m)
  case Nil
  then show ?case by simp
next
  case (Cons t ts)
  show ?case
  proof (cases "unat t \<ge> n")
    case True
    with Cons.prems show ?thesis by simp
  next
    case False
    have step: "associate_loop n r (t # ts) m = associate_loop n r ts (m(t \<mapsto> r))"
      using False by simp
    have "\<forall>k\<in>dom (m(t \<mapsto> r)). unat k < n"
      using Cons.prems False by auto
    then show ?thesis
      unfolding step by (rule Cons.IH)
  qed
qed

lemma associate_loop_visited:
  "snd (associate_loop n r S m) i =
     (if i \<in> set (takeWhile (\<lambda>t. unat t < n) S) then Some r else m i)"
proof (induction S arbitrary: m)
  case Nil
  show ?case by simp
next
  case (Cons t ts)
  show ?case
  proof (cases "unat t < n")
    case True
    then have "snd (associate_loop n r (t # ts) m) i = snd (associate_loop n r ts (m(t \<mapsto> r))) i"
      by simp
    also have "\<dots> = (if i \<in> set (takeWhile (\<lambda>t. unat t < n) ts) then Some r
                      else (m(t \<mapsto> r)) i)"
      by (rule Cons.IH)
    finally show ?thesis
      using True by simp
  next
    case False
    then show ?thesis by simp
  qed
qed

lemma Associate_fst:
  "fst (AssociateReflectionKernelToTriangles s K S) = (\<forall>i\<in>set S. unat i < num_triangles s)"
  using associate_loop_fst [of "num_triangles s" "length (reflections s)" S "triangle_to_reflection_map s"]
  by (simp add: AssociateReflectionKernelToTriangles_def Let_def split_beta)

lemma Associate_reflections:
  "reflections (snd (AssociateReflectionKernelToTriangles s K S)) = reflections s @ [K]"
  by (simp add: AssociateReflectionKernelToTriangles_def Let_def split_beta)

lemma Associate_map:
  "triangle_to_reflection_map (snd (AssociateReflectionKernelToTriangles s K S)) =
     snd (associate_loop (num_triangles s) (length (reflections s)) S (triangle_to_reflection_map s))"
  by (simp add: AssociateReflectionKernelToTriangles_def Let_def split_beta)

lemma Associate_num_triangles:
  "num_triangles (snd (AssociateReflectionKernelToTriangles s K S)) = num_triangles s"
  by (simp add: AssociateReflectionKernelToTriangles_def Let_def split_beta)

lemma BuildScene_fields:
  "num_triangles (BuildScene ids s V T) = length T"
  "num_vertices (BuildScene ids s V T) = length V"
  "reflections (BuildScene ids s V T) = reflections s"
  "triangle_to_reflection_map (BuildScene ids s V T) = triangle_to_reflection_map s"
  "sphere_to_listener_map (BuildScene ids s V T) = sphere_to_listener_map s"
  "listener_scene (BuildScene ids s V T) = listener_scene s"
  "is_scene_committed (BuildScene ids s V T)"
  by (simp_all add: BuildScene_def Let_def split_beta)

lemma BuildListenerScene_fields:
  "num_triangles (BuildListenerScene ids s L r) = num_triangles s"
  "reflections (BuildListenerScene ids s L r) = reflections s"
  "triangle_to_reflection_map (BuildListenerScene ids s L r) = triangle_to_reflection_map s"
  "scene (BuildListenerScene ids s L r) = scene s"
  "is_listener_scene_committed (BuildListenerScene ids s L r)"
  by (simp_all add: BuildListenerScene_def Let_def split_beta)

lemma example_scene_fields:
  "num_triangles one_triangle_scene = 1"
  "reflections one_triangle_scene = []"
  "triangle_to_reflection_map one_triangle_scene = Map.empty"
  "num_triangles two_triangle_scene = 2"
  "reflections two_triangle_scene = []"
  "triangle_to_reflection_map two_triangle_scene = Map.empty"
  by (simp_all add: one_triangle_scene_def two_triangle_scene_def BuildScene_fields
      SceneManager_new_def)

lemma ReflectionKernelForTriangle_Associate:
  assumes "fst (AssociateReflectionKernelToTriangles s K S)" and "i \<in> set S"
  shows "ReflectionKernelForTriangle (snd (AssociateReflectionKernelToTriangles s K S)) i = Some K"
proof -
  have "fst (associate_loop (num_triangles s) (length (reflections s)) S
              (triangle_to_reflection_map s))"
    using assms(1) by (simp add: Associate_fst associate_loop_fst)
  then have "triangle_to_reflection_map (snd (AssociateReflectionKernelToTriangles s K S)) i
               = Some (length (reflections s))"
    using assms(2) by (simp add: Associate_map associate_loop_inside)
  then show ?thesis
    by (simp add: ReflectionKernelForTriangle_def Associate_reflections)
qed

lemma keys_in_range_Associate:
  "keys_in_range s \<Longrightarrow> keys_in_range (snd (AssociateReflectionKernelToTriangles s K S))"
  unfolding keys_in_range_def Associate_map Associate_num_triangles
  by (rule associate_loop_keys)

subsection \<open>The mesh built by \<open>BuildScene\<close>\<close>

lemmas embree_defs =
  rtcNewGeometry_def rtcSetGeometryBuildQuality_def rtcSetGeometryTimeStepCount_def
  rtcSetGeometryUserPrimitiveCount_def rtcSetGeometryUserData_def
  rtcSetGeometryBoundsFunction_def rtcSetGeometryIntersectFunction_def
  rtcAttachGeometry_def rtcReleaseGeometry_def rtcCommitScene_def update_geometry_def

lemma copy_triangles_length:
  "length (copy_triangles T n buf) = length buf"
  unfolding copy_triangles_def by (induction n) simp_all

lemma copy_triangles_Suc:
  "copy_triangles T (Suc n) buf =
     (copy_triangles T n buf)[3 * n := Some (v0 (T ! n)),
                              3 * n + 1 := Some (v2 (T ! n)),
                              3 * n + 2 := Some (v1 (T ! n))]"
  by (simp add: copy_triangles_def)

lemma copy_triangles_nth:
  "3 * n \<le> length buf \<Longrightarrow> i < n \<Longrightarrow>
   copy_triangles T n buf ! (3 * i) = Some (v0 (T ! i)) \<and>
   copy_triangles T n buf ! (3 * i + 1) = Some (v2 (T ! i)) \<and>
   copy_triangles T n buf ! (3 * i + 2) = Some (v1 (T ! i))"
proof (induction n)
  case 0
  then show ?case by simp
next
  case (Suc n)
  show ?case
  proof (cases "i = n")
    case True
    with Suc.prems show ?thesis
      by (simp add: copy_triangles_Suc copy_triangles_length)
  next
    case False
    with Suc.prems have "i < n" and "3 * n \<le> length buf"
      by simp_all
    with Suc.IH show ?thesis
      by (simp add: copy_triangles_Suc)
  qed
qed

lemma BuildScene_scene:
  "scene (BuildScene ids s V T) =
     \<lparr>attached = attached (scene s) @ [(ids (length (attached (scene s))), next_handle (device s))],
      committed = True\<rparr>"
  by (simp add: BuildScene_def embree_defs Let_def split_beta)

lemma BuildScene_mesh:
  "geometries (device (BuildScene ids s V T)) (next_handle (device s)) =
     Some \<lparr>geometry_type = RTC_GEOMETRY_TYPE_TRIANGLE, build_quality = RTC_BUILD_QUALITY_MEDIUM,
           time_step_count = 1, user_primitive_count = 0,
           vertex_buffer = copy_vertices V (length V) (new_vertex_buffer (length V)),
           index_buffer = copy_triangles T (length T) (new_index_buffer (length T)),
           user_data = None, bounds_function = None, intersect_function = None,
           ref_count = 1\<rparr>"
  by (simp add: BuildScene_def embree_defs Let_def split_beta)

lemma world_mesh_BuildScene:
  "world_mesh (BuildScene ids s V T) =
     Some \<lparr>geometry_type = RTC_GEOMETRY_TYPE_TRIANGLE, build_quality = RTC_BUILD_QUALITY_MEDIUM,
           time_step_count = 1, user_primitive_count = 0,
           vertex_buffer = copy_vertices V (length V) (new_vertex_buffer (length V)),
           index_buffer = copy_triangles T (length T) (new_index_buffer (length T)),
           user_data = None, bounds_function = None, intersect_function = None,
           ref_count = 1\<rparr>"
  by (simp add: world_mesh_def scene_geometry_def BuildScene_scene BuildScene_mesh)

subsection \<open>The loop over the listeners\<close>

lemma add_listener_sphere_step:
  "add_listener_sphere ids r L k (d, sc, m) =
     (d\<lparr>geometries := (geometries d)(next_handle d \<mapsto>
          \<lparr>geometry_type = RTC_GEOMETRY_TYPE_USER, build_quality = RTC_BUILD_QUALITY_MEDIUM,
           time_step_count = 1, user_primitive_count = 1,
           vertex_buffer = [], index_buffer = [],
           user_data = Some [\<lparr>center = position (L ! k), radius = r,
                              geometry_id = ids (length (attached sc))\<rparr>],
           bounds_function = Some Ptr_EmbreeSphereBoundsFunction,
           intersect_function = Some Ptr_EmbreeSphereIntersectFunction,
           ref_count = 1\<rparr>),
        next_handle := Suc (next_handle d)\<rparr>,
      sc\<lparr>attached := attached sc @ [(ids (length (attached sc)), next_handle d)]\<rparr>,
      m(ids (length (attached sc)) \<mapsto> k))"
  by (simp add: add_listener_sphere_def embree_defs Let_def)

lemma listener_loop:
  "fold (add_listener_sphere ids r L) [0..<n] (d, rtcNewScene, m) = (d', sc', m') \<Longrightarrow>
   attached sc' = map (\<lambda>k. (ids k, next_handle d + k)) [0..<n] \<and>
   committed sc' = False \<and>
   next_handle d' = next_handle d + n \<and>
   (\<forall>k<n. geometries d' (next_handle d + k) =
      Some \<lparr>geometry_type = RTC_GEOMETRY_TYPE_USER, build_quality = RTC_BUILD_QUALITY_MEDIUM,
            time_step_count = 1, user_primitive_count = 1,
            vertex_buffer = [], index_buffer = [],
            user_data = Some [\<lparr>center = position (L ! k), radius = r, geometry_id = ids k\<rparr>],
            bounds_function = Some Ptr_EmbreeSphereBoundsFunction,
            intersect_function = Some Ptr_EmbreeSphereIntersectFunction,
            ref_count = 1\<rparr>) \<and>
   dom m' = dom m \<union> ids ` {..<n} \<and>
   (\<forall>g. g \<notin> ids ` {..<n} \<longrightarrow> m' g = m g) \<and>
   (inj_on ids {..<n} \<longrightarrow> (\<forall>k<n. m' (ids k) = Some k))"
proof (induction n arbitrary: d' sc' m')
  case 0
  then show ?case
    by (auto simp: rtcNewScene_def)
next
  case (Suc n)
  obtain d1 sc1 m1 where
    prev: "fold (add_listener_sphere ids r L) [0..<n] (d, rtcNewScene, m) = (d1, sc1, m1)"
    by (cases "fold (add_listener_sphere ids r L) [0..<n] (d, rtcNewScene, m)") auto
  note ih = Suc.IH [OF prev]
  from ih have len: "length (attached sc1) = n"
    by simp
  have "(d', sc', m') = add_listener_sphere ids r L n (d1, sc1, m1)"
    using Suc.prems prev by simp
  then have d': "d' = d1\<lparr>geometries := (geometries d1)(next_handle d + n \<mapsto>
          \<lparr>geometry_type = RTC_GEOMETRY_TYPE_USER, build_quality = RTC_BUILD_QUALITY_MEDIUM,
           time_step_count = 1, user_primitive_count = 1,
           vertex_buffer = [], index_buffer = [],
           user_data = Some [\<lparr>center = position (L ! n), radius = r, geometry_id = ids n\<rparr>],
           bounds_function = Some Ptr_EmbreeSphereBoundsFunction,
           intersect_function = Some Ptr_EmbreeSphereIntersectFunction,
           ref_count = 1\<rparr>),
        next_handle := Suc (next_handle d + n)\<rparr>"
    and sc': "sc' = sc1\<lparr>attached := attached sc1 @ [(ids n, next_handle d + n)]\<rparr>"
    and m': "m' = m1(ids n \<mapsto> n)"
    using ih len by (simp_all add: add_listener_sphere_step)
  have "\<forall>k<Suc n. geometries d' (next_handle d + k) =
      Some \<lparr>geometry_type = RTC_GEOMETRY_TYPE_USER, build_quality = RTC_BUILD_QUALITY_MEDIUM,
            time_step_count = 1, user_primitive_count = 1,
            vertex_buffer = [], index_buffer = [],
            user_data = Some [\<lparr>center = position (L ! k), radius = r, geometry_id = ids k\<rparr>],
            bounds_function = Some Ptr_EmbreeSphereBoundsFunction,
            intersect_function = Some Ptr_EmbreeSphereIntersectFunction,
            ref_count = 1\<rparr>"
    using ih by (simp add: d' less_Suc_eq)
  moreover have "attached sc' = map (\<lambda>k. (ids k, next_handle d + k)) [0..<Suc n]"
    using ih by (simp add: sc')
  moreover have "committed sc' = False" and "next_handle d' = next_handle d + Suc n"
    using ih by (simp_all add: sc' d')
  moreover have "dom m' = dom m \<union> ids ` {..<Suc n}"
    using ih by (auto simp: m' lessThan_Suc)
  moreover have "\<forall>g. g \<notin> ids ` {..<Suc n} \<longrightarrow> m' g = m g"
    using ih by (simp add: m' lessThan_Suc)
  moreover have "inj_on ids {..<Suc n} \<longrightarrow> (\<forall>k<Suc n. m' (ids k) = Some k)"
  proof (intro impI allI)
    fix k
    assume inj: "inj_on ids {..<Suc n}" and k: "k < Suc n"
    show "m' (ids k) = Some k"
    proof (cases "k = n")
      case True
      then show ?thesis by (simp add: m')
    next
      case False
      with inj k have "k < n" and "inj_on ids {..<n}" and "ids k \<noteq> ids n"
        by (auto simp: inj_on_def)
      with ih show ?thesis
        by (simp add: m')
    qed
  qed
  ultimately show ?case
    by blast
qed

lemma BuildListenerScene_result:
  obtains d' sc' m' where
    "fold (add_listener_sphere ids r L) [0..<length L]
       (rtcReleaseScene (listener_scene s) (device s), rtcNewScene, sphere_to_listener_map s)
     = (d', sc', m')"
    "device (BuildListenerScene ids s L r) = d'"
    "listener_scene (BuildListenerScene ids s L r) = rtcCommitScene sc'"
    "sphere_to_listener_map (BuildListenerScene ids s L r) = m'"
proof -
  obtain d' sc' m' where f: "fold (add_listener_sphere ids r L) [0..<length L]
       (rtcReleaseScene (listener_scene s) (device s), rtcNewScene, sphere_to_listener_map s)
     = (d', sc', m')"
    by (cases "fold (add_listener_sphere ids r L) [0..<length L]
       (rtcReleaseScene (listener_scene s) (device s), rtcNewScene, sphere_to_listener_map s)") auto
  then show ?thesis
    by (intro that [of d' sc' m']) (simp_all add: BuildListenerScene_def Let_def)
qed

lemma BuildListenerScene_ids:
  "map fst (attached (listener_scene (BuildListenerScene ids s L r))) = map ids [0..<length L]"
proof -
  obtain d' sc' m' where
    f: "fold (add_listener_sphere ids r L) [0..<length L]
       (rtcReleaseScene (listener_scene s) (device s), rtcNewScene, sphere_to_listener_map s)
     = (d', sc', m')"
    and sc: "listener_scene (BuildListenerScene ids s L r) = rtcCommitScene sc'"
    by (rule BuildListenerScene_result)
  from listener_loop [OF f] show ?thesis
    by (simp add: sc rtcCommitScene_def comp_def)
qed

lemma BuildListenerScene_map:
  "dom (sphere_to_listener_map (BuildListenerScene ids s L r))
     = dom (sphere_to_listener_map s) \<union> ids ` {..<length L}"
  "g \<notin> ids ` {..<length L} \<Longrightarrow>
     sphere_to_listener_map (BuildListenerScene ids s L r) g = sphere_to_listener_map s g"
  "inj_on ids {..<length L} \<Longrightarrow> k < length L \<Longrightarrow>
     sphere_to_listener_map (BuildListenerScene ids s L r) (ids k) = Some k"
proof -
  obtain d' sc' m' where
    f: "fold (add_listener_sphere ids r L) [0..<length L]
       (rtcReleaseScene (listener_scene s) (device s), rtcNewScene, sphere_to_listener_map s)
     = (d', sc', m')"
    and m: "sphere_to_listener_map (BuildListenerScene ids s L r) = m'"
    by (rule BuildListenerScene_result)
  note loop = listener_loop [OF f]
  from loop show "dom (sphere_to_listener_map (BuildListenerScene ids s L r))
     = dom (sphere_to_listener_map s) \<union> ids ` {..<length L}"
    by (simp add: m)
  from loop show "g \<notin> ids ` {..<length L} \<Longrightarrow>
     sphere_to_listener_map (BuildListenerScene ids s L r) g = sphere_to_listener_map s g"
    by (simp add: m)
  from loop show "inj_on ids {..<length L} \<Longrightarrow> k < length L \<Longrightarrow>
     sphere_to_listener_map (BuildListenerScene ids s L r) (ids k) = Some k"
    by (simp add: m)
qed

lemma BuildListenerScene_geometry:
  assumes "k < length L"
  shows "scene_geometry (device (BuildListenerScene ids s L r))
           (listener_scene (BuildListenerScene ids s L r)) k =
     Some (ids k,
           \<lparr>geometry_type = RTC_GEOMETRY_TYPE_USER, build_quality = RTC_BUILD_QUALITY_MEDIUM,
            time_step_count = 1, user_primitive_count = 1,
            vertex_buffer = [], index_buffer = [],
            user_data = Some [\<lparr>center = position (L ! k), radius = r, geometry_id = ids k\<rparr>],
            bounds_function = Some Ptr_EmbreeSphereBoundsFunction,
            intersect_function = Some Ptr_EmbreeSphereIntersectFunction,
            ref_count = 1\<rparr>)"
proof -
  obtain d' sc' m' where
    f: "fold (add_listener_sphere ids r L) [0..<length L]
       (rtcReleaseScene (listener_scene s) (device s), rtcNewScene, sphere_to_listener_map s)
     = (d', sc', m')"
    and d: "device (BuildListenerScene ids s L r) = d'"
    and sc: "listener_scene (BuildListenerScene ids s L r) = rtcCommitScene sc'"
    by (rule BuildListenerScene_result)
  from listener_loop [OF f] assms show ?thesis
    by (simp add: d sc rtcCommitScene_def scene_geometry_def)
qed


lemma sequential_ids_inj: "n \<le> 2 ^ 32 \<Longrightarrow> inj_on sequential_ids {..<n}"
  unfolding sequential_ids_def inj_on_def
proof (intro ballI impI)
  fix a b :: nat
  assume n: "n \<le> 2 ^ 32" and a: "a \<in> {..<n}" and b: "b \<in> {..<n}"
    and eq: "(of_nat a :: uint) = of_nat b"
  from eq have "unat (of_nat a :: uint) = unat (of_nat b :: uint)"
    by simp
  moreover from n a b have "a < 2 ^ 32" and "b < 2 ^ 32"
    by simp_all
  ultimately show "a = b"
    by (simp add: unat_of_nat)
qed

section \<open>The claims\<close>

text \<open>
  C1. After \<open>BuildScene\<close> the world scene is committed and the index buffer of its mesh
  has three entries per triangle of the triangle buffer: for the triangle at position
  \<open>i\<close>, entry \<open>3i\<close> is its \<open>v0\<close>, entry \<open>3i + 1\<close> its \<open>v2\<close> and entry \<open>3i + 2\<close> its \<open>v1\<close>.
\<close>

theorem BuildScene_winding_order:
  "i < length T \<Longrightarrow>
   committed (scene (BuildScene ids s V T)) \<and>
   (case world_mesh (BuildScene ids s V T) of
      None \<Rightarrow> False
    | Some mesh \<Rightarrow>
        length (index_buffer mesh) = 3 * length T \<and>
        index_buffer mesh ! (3 * i) = Some (v0 (T ! i)) \<and>
        index_buffer mesh ! (3 * i + 1) = Some (v2 (T ! i)) \<and>
        index_buffer mesh ! (3 * i + 2) = Some (v1 (T ! i)))"
  using copy_triangles_nth [of "length T" "new_index_buffer (length T)" i T]
  by (simp add: world_mesh_BuildScene BuildScene_scene copy_triangles_length new_index_buffer_def)

text \<open>
  The mesh of three vertices and the one triangle (0, 1, 2): the second and third stored
  indices are 2 and 1.
\<close>

theorem BuildScene_winding_order_witness:
  "(0 :: nat) < length [unit_triangle] \<and>
   committed (scene one_triangle_scene) \<and>
   (case world_mesh one_triangle_scene of
      None \<Rightarrow> False
    | Some mesh \<Rightarrow>
        length (index_buffer mesh) = 3 \<and>
        index_buffer mesh ! 0 = Some 0 \<and>
        index_buffer mesh ! 1 = Some 2 \<and>
        index_buffer mesh ! 2 = Some 1)"
  using BuildScene_winding_order [of 0 "[unit_triangle]" sequential_ids
      "SceneManager_new :: (real, string) SceneManager" corner_vertices]
  by (simp add: one_triangle_scene_def unit_triangle_def numeral_2_eq_2 split: option.splits)

text \<open>
  C2, as stated, fails. With one triangle in the scene, an association with the indices
  0 and 5, visited in this order, returns false; the registry, empty before, then holds
  the kernel, and triangle 0 has an entry it did not have. The registry grows in whatever
  order the indices are visited.
\<close>

theorem failed_association_not_atomic:
  "\<not> fst (AssociateReflectionKernelToTriangles one_triangle_scene ''K'' [0, 5]) \<and>
   reflections one_triangle_scene = [] \<and>
   reflections (snd (AssociateReflectionKernelToTriangles one_triangle_scene ''K'' [0, 5])) = [''K''] \<and>
   triangle_to_reflection_map one_triangle_scene 0 = None \<and>
   triangle_to_reflection_map
     (snd (AssociateReflectionKernelToTriangles one_triangle_scene ''K'' [0, 5])) 0 = Some 0"
  by (simp add: Associate_fst Associate_reflections Associate_map example_scene_fields)

text \<open>
  C2, amended. When \<open>AssociateReflectionKernelToTriangles\<close> returns false, some index of
  the set is not below the triangle count, the registry is the list before the call with
  the kernel appended, and the triangle-to-kernel map has changed exactly at the indices
  visited before the first one that is out of range: each of them now maps to the
  position of the new kernel in the registry. So every entry is either as before the
  call, or belongs to an index of the set below the triangle count and holds that
  position; no out-of-range index is ever stored.
\<close>

theorem failed_association_effect:
  "\<not> fst (AssociateReflectionKernelToTriangles s K S) \<Longrightarrow>
   reflections (snd (AssociateReflectionKernelToTriangles s K S)) = reflections s @ [K] \<and>
   (\<exists>j\<in>set S. num_triangles s \<le> unat j) \<and>
   triangle_to_reflection_map (snd (AssociateReflectionKernelToTriangles s K S)) i
     = (if i \<in> set (takeWhile (\<lambda>t. unat t < num_triangles s) S)
        then Some (length (reflections s)) else triangle_to_reflection_map s i) \<and>
   (triangle_to_reflection_map (snd (AssociateReflectionKernelToTriangles s K S)) i
      = triangle_to_reflection_map s i \<or>
    i \<in> set S \<and> unat i < num_triangles s \<and>
    triangle_to_reflection_map (snd (AssociateReflectionKernelToTriangles s K S)) i
      = Some (length (reflections s)))"
proof -
  assume failed: "\<not> fst (AssociateReflectionKernelToTriangles s K S)"
  then have bad: "\<exists>j\<in>set S. num_triangles s \<le> unat j"
    by (auto simp: Associate_fst not_less)
  have visited: "triangle_to_reflection_map (snd (AssociateReflectionKernelToTriangles s K S)) i
     = (if i \<in> set (takeWhile (\<lambda>t. unat t < num_triangles s) S)
        then Some (length (reflections s)) else triangle_to_reflection_map s i)"
    by (simp only: Associate_map associate_loop_visited)
  have "i \<in> set (takeWhile (\<lambda>t. unat t < num_triangles s) S) \<Longrightarrow>
          i \<in> set S \<and> unat i < num_triangles s"
    by (auto dest: set_takeWhileD)
  with visited have either:
    "triangle_to_reflection_map (snd (AssociateReflectionKernelToTriangles s K S)) i
      = triangle_to_reflection_map s i \<or>
    i \<in> set S \<and> unat i < num_triangles s \<and>
    triangle_to_reflection_map (snd (AssociateReflectionKernelToTriangles s K S)) i
      = Some (length (reflections s))"
    by (cases "i \<in> set (takeWhile (\<lambda>t. unat t < num_triangles s) S)") simp_all
  from bad visited either show ?thesis
    by (simp only: Associate_reflections simp_thms)
qed

text \<open>
  One triangle, indices visited as 0 and 5: triangle 0 is stored under position 0 of the
  registry, the out-of-range index 5 is not stored, and index 7, outside the set, has no
  entry either.
\<close>

theorem failed_association_effect_witness:
  "\<not> fst (AssociateReflectionKernelToTriangles one_triangle_scene ''K'' [0, 5]) \<and>
   reflections (snd (AssociateReflectionKernelToTriangles one_triangle_scene ''K'' [0, 5]))
     = [''K''] \<and>
   triangle_to_reflection_map
     (snd (AssociateReflectionKernelToTriangles one_triangle_scene ''K'' [0, 5])) 0 = Some 0 \<and>
   triangle_to_reflection_map
     (snd (AssociateReflectionKernelToTriangles one_triangle_scene ''K'' [0, 5])) 5 = None \<and>
   triangle_to_reflection_map
     (snd (AssociateReflectionKernelToTriangles one_triangle_scene ''K'' [0, 5])) 7 = None"
proof -
  have h: "\<not> fst (AssociateReflectionKernelToTriangles one_triangle_scene ''K'' [0, 5])"
    by (simp add: Associate_fst example_scene_fields)
  from failed_association_effect [OF h, of 0] failed_association_effect [OF h, of 5]
    failed_association_effect [OF h, of 7] h
  show ?thesis
    by (simp add: example_scene_fields)
qed

text \<open>
  C3. \<open>BuildScene\<close> records the size of the triangle buffer as the triangle count.
  \<open>AssociateReflectionKernelToTriangles\<close> returns true exactly when every index of the
  set is below the recorded count, and then \<open>ReflectionKernelForTriangle\<close> yields the
  kernel for every index of the set.
\<close>

theorem association_succeeds_iff:
  "num_triangles (BuildScene ids s0 V T) = length T \<and>
   fst (AssociateReflectionKernelToTriangles s K S) = (\<forall>j\<in>set S. unat j < num_triangles s) \<and>
   (fst (AssociateReflectionKernelToTriangles s K S) \<longrightarrow> i \<in> set S \<longrightarrow>
      ReflectionKernelForTriangle (snd (AssociateReflectionKernelToTriangles s K S)) i = Some K)"
  using ReflectionKernelForTriangle_Associate [of s K S i]
  by (simp add: BuildScene_fields Associate_fst)

theorem association_succeeds_iff_witness:
  "fst (AssociateReflectionKernelToTriangles two_triangle_scene ''K'' [0, 1]) \<and>
   unat (0 :: uint) < num_triangles two_triangle_scene \<and>
   unat (1 :: uint) < num_triangles two_triangle_scene \<and>
   (1 :: uint) \<in> set [0, 1] \<and>
   ReflectionKernelForTriangle
     (snd (AssociateReflectionKernelToTriangles two_triangle_scene ''K'' [0, 1])) 1 = Some ''K''"
proof -
  have h: "\<forall>j\<in>set [0, 1 :: uint]. unat j < num_triangles two_triangle_scene"
    by (simp add: example_scene_fields)
  note t = association_succeeds_iff [of sequential_ids "SceneManager_new :: (real, string) SceneManager"
      corner_vertices "[unit_triangle, unit_triangle]" two_triangle_scene "''K''" "[0, 1]" 1]
  from t h have ok: "fst (AssociateReflectionKernelToTriangles two_triangle_scene ''K'' [0, 1])"
    by blast
  with t h show ?thesis
    by simp
qed

text \<open>
  C4, as stated, fails. A first build with two listeners produces the identifiers 0 and
  1. A rebuild with one listener produces the identifier 0 only, and identifier 1, which
  the rebuild does not reuse, still resolves to listener 1: the keys of the map are not
  the identifiers of the latest build.
\<close>

theorem stale_listener_keys_survive_rebuild:
  "map fst (attached (listener_scene two_listener_scene)) = [0, 1] \<and>
   map fst (attached (listener_scene rebuilt_listener_scene)) = [0] \<and>
   ListenerIndexForGeometry two_listener_scene 1 = Some 1 \<and>
   ListenerIndexForGeometry rebuilt_listener_scene 1 = Some 1 \<and>
   dom (sphere_to_listener_map rebuilt_listener_scene)
     \<noteq> set (map fst (attached (listener_scene rebuilt_listener_scene)))"
proof -
  have inj: "inj_on sequential_ids {..<length [listener_at 5, listener_at 7]}"
    by (rule sequential_ids_inj) simp
  have a1: "map fst (attached (listener_scene two_listener_scene)) = [0, 1]"
    by (simp add: two_listener_scene_def BuildListenerScene_ids sequential_ids_def)
  have a2: "map fst (attached (listener_scene rebuilt_listener_scene)) = [0]"
    by (simp add: rebuilt_listener_scene_def BuildListenerScene_ids sequential_ids_def)
  have "ListenerIndexForGeometry two_listener_scene (sequential_ids 1) = Some 1"
    unfolding two_listener_scene_def ListenerIndexForGeometry_def
    by (rule BuildListenerScene_map(3) [OF inj]) simp
  then have l1: "ListenerIndexForGeometry two_listener_scene 1 = Some 1"
    by (simp add: sequential_ids_def)
  have "(1 :: uint) \<notin> sequential_ids ` {..<length [listener_at 5]}"
    by (simp add: sequential_ids_def lessThan_Suc)
  then have "ListenerIndexForGeometry rebuilt_listener_scene 1
               = ListenerIndexForGeometry two_listener_scene 1"
    unfolding rebuilt_listener_scene_def ListenerIndexForGeometry_def
    by (rule BuildListenerScene_map(2))
  with l1 have l2: "ListenerIndexForGeometry rebuilt_listener_scene 1 = Some 1"
    by simp
  then have "(1 :: uint) \<in> dom (sphere_to_listener_map rebuilt_listener_scene)"
    by (auto simp: ListenerIndexForGeometry_def)
  moreover have "(1 :: uint) \<notin> set (map fst (attached (listener_scene rebuilt_listener_scene)))"
    unfolding a2 by simp
  ultimately have "dom (sphere_to_listener_map rebuilt_listener_scene)
     \<noteq> set (map fst (attached (listener_scene rebuilt_listener_scene)))"
    by blast
  with a1 a2 l1 l2 show ?thesis
    by blast
qed

text \<open>
  C4, amended. After \<open>BuildListenerScene\<close> the keys of the sphere-to-listener map are the
  keys it had before the call together with the geometry identifiers of the scene just
  built, and for an identifier that is not one of these, \<open>ListenerIndexForGeometry\<close>
  yields what it yielded before the call.
\<close>

theorem listener_keys_after_rebuild:
  "dom (sphere_to_listener_map (BuildListenerScene ids s L r))
     = dom (sphere_to_listener_map s)
       \<union> set (map fst (attached (listener_scene (BuildListenerScene ids s L r)))) \<and>
   (g \<notin> set (map fst (attached (listener_scene (BuildListenerScene ids s L r)))) \<longrightarrow>
      ListenerIndexForGeometry (BuildListenerScene ids s L r) g = ListenerIndexForGeometry s g)"
proof -
  have "set (map fst (attached (listener_scene (BuildListenerScene ids s L r))))
          = ids ` {..<length L}"
    unfolding BuildListenerScene_ids by (simp add: lessThan_atLeast0)
  then show ?thesis
    by (simp add: BuildListenerScene_map ListenerIndexForGeometry_def)
qed

theorem listener_keys_after_rebuild_witness:
  "(1 :: uint) \<notin> set (map fst (attached (listener_scene rebuilt_listener_scene))) \<and>
   ListenerIndexForGeometry rebuilt_listener_scene 1
     = ListenerIndexForGeometry two_listener_scene 1"
proof -
  have h: "(1 :: uint) \<notin> set (map fst (attached (listener_scene
      (BuildListenerScene sequential_ids two_listener_scene [listener_at 5] (1 / 2)))))"
    by (simp add: BuildListenerScene_ids sequential_ids_def)
  from listener_keys_after_rebuild [of sequential_ids two_listener_scene "[listener_at 5]" "1 / 2" 1]
    h show ?thesis
    unfolding rebuilt_listener_scene_def by blast
qed

text \<open>
  C5. After \<open>BuildListenerScene\<close> the listener scene is committed and holds as many
  geometries as there are listeners, none for an empty list. The \<open>k\<close>-th is a user geometry with one primitive,
  its user data is a sphere centred at the position of the \<open>k\<close>-th listener with the given
  radius (of any sign) and the identifier of the geometry, and both adapters are
  installed. \<open>ListenerIndexForGeometry\<close> maps its identifier to \<open>k\<close>, provided the engine
  hands out distinct identifiers within the scene.
\<close>

theorem BuildListenerScene_spheres:
  "length (attached (listener_scene (BuildListenerScene ids s L r))) = length L \<and>
   committed (listener_scene (BuildListenerScene ids s L r)) \<and>
   (k < length L \<longrightarrow>
   (case scene_geometry (device (BuildListenerScene ids s L r))
           (listener_scene (BuildListenerScene ids s L r)) k of
      None \<Rightarrow> False
    | Some (sphere_id, geom) \<Rightarrow>
        sphere_id = ids k \<and>
        geometry_type geom = RTC_GEOMETRY_TYPE_USER \<and>
        user_primitive_count geom = 1 \<and>
        user_data geom = Some [\<lparr>center = position (L ! k), radius = r, geometry_id = sphere_id\<rparr>] \<and>
        bounds_function geom = Some Ptr_EmbreeSphereBoundsFunction \<and>
        intersect_function geom = Some Ptr_EmbreeSphereIntersectFunction) \<and>
   (inj_on ids {..<length L} \<longrightarrow>
      ListenerIndexForGeometry (BuildListenerScene ids s L r) (ids k) = Some k))"
proof -
  have "length (map fst (attached (listener_scene (BuildListenerScene ids s L r)))) = length L"
    unfolding BuildListenerScene_ids by simp
  then have "length (attached (listener_scene (BuildListenerScene ids s L r))) = length L"
    by simp
  moreover have "committed (listener_scene (BuildListenerScene ids s L r))"
    by (simp add: BuildListenerScene_def Let_def split_beta rtcCommitScene_def)
  moreover have "k < length L \<longrightarrow> inj_on ids {..<length L} \<longrightarrow>
      ListenerIndexForGeometry (BuildListenerScene ids s L r) (ids k) = Some k"
    by (simp add: ListenerIndexForGeometry_def BuildListenerScene_map)
  ultimately show ?thesis
    by (simp add: BuildListenerScene_geometry)
qed

text \<open>
  Listeners at (5, 0, 0) and (7, 0, 0) with radius 0.5, identifiers 0 and 1: the second
  sphere and its way back to listener 1.
\<close>

theorem BuildListenerScene_spheres_witness:
  "(1 :: nat) < length [listener_at 5, listener_at 7] \<and>
   inj_on sequential_ids {..<length [listener_at 5, listener_at 7]} \<and>
   length (attached (listener_scene two_listener_scene)) = 2 \<and>
   (case scene_geometry (device two_listener_scene) (listener_scene two_listener_scene) 1 of
      None \<Rightarrow> False
    | Some (sphere_id, geom) \<Rightarrow>
        sphere_id = 1 \<and>
        user_data geom = Some [\<lparr>center = (7, 0, 0), radius = 1 / 2, geometry_id = 1\<rparr>]) \<and>
   ListenerIndexForGeometry two_listener_scene 1 = Some 1"
proof -
  have h1: "(1 :: nat) < length [listener_at 5, listener_at 7]"
    by simp
  have h2: "inj_on sequential_ids {..<length [listener_at 5, listener_at 7]}"
    by (rule sequential_ids_inj) simp
  from BuildListenerScene_spheres [of sequential_ids
      "SceneManager_new :: (real, string) SceneManager" "[listener_at 5, listener_at 7]"
      "1 / 2" 1] h1 h2
  show ?thesis
    by (simp add: two_listener_scene_def sequential_ids_def listener_at_def
        split: option.splits prod.splits)
qed

text \<open>
  C6, as stated, fails. With two triangles in the scene, a kernel is associated with
  triangle 1; a following \<open>BuildScene\<close> with one triangle leaves that entry in the map
  while the recorded count drops to 1.
\<close>

theorem smaller_rebuild_breaks_key_range:
  "fst (AssociateReflectionKernelToTriangles two_triangle_scene ''K'' [1]) \<and>
   keys_in_range (snd (AssociateReflectionKernelToTriangles two_triangle_scene ''K'' [1])) \<and>
   triangle_to_reflection_map
     (BuildScene sequential_ids (snd (AssociateReflectionKernelToTriangles two_triangle_scene ''K'' [1]))
        corner_vertices [unit_triangle]) 1 = Some 0 \<and>
   num_triangles
     (BuildScene sequential_ids (snd (AssociateReflectionKernelToTriangles two_triangle_scene ''K'' [1]))
        corner_vertices [unit_triangle]) = 1 \<and>
   \<not> keys_in_range
     (BuildScene sequential_ids (snd (AssociateReflectionKernelToTriangles two_triangle_scene ''K'' [1]))
        corner_vertices [unit_triangle])"
proof -
  let ?s1 = "snd (AssociateReflectionKernelToTriangles two_triangle_scene ''K'' [1])"
  let ?s2 = "BuildScene sequential_ids ?s1 corner_vertices [unit_triangle]"
  have ok: "fst (AssociateReflectionKernelToTriangles two_triangle_scene ''K'' [1])"
    by (simp add: Associate_fst example_scene_fields)
  have "keys_in_range two_triangle_scene"
    by (simp add: keys_in_range_def example_scene_fields)
  then have inv1: "keys_in_range ?s1"
    by (rule keys_in_range_Associate)
  have m: "triangle_to_reflection_map ?s2 1 = Some 0"
    by (simp add: BuildScene_fields Associate_map example_scene_fields)
  have n: "num_triangles ?s2 = 1"
    by (simp add: BuildScene_fields)
  have "\<not> keys_in_range ?s2"
  proof
    assume "keys_in_range ?s2"
    then have "unat (1 :: uint) < num_triangles ?s2"
      unfolding keys_in_range_def using m by blast
    then show False
      using n by simp
  qed
  with ok inv1 m n show ?thesis
    by blast
qed

text \<open>
  C6, amended. Every key of the triangle-to-kernel map is below the recorded triangle
  count in every state reached from construction by \<open>BuildListenerScene\<close>, by
  associations, failed ones included, and by \<open>BuildScene\<close> calls that bring at least as
  many triangles as the count recorded before them.
\<close>

theorem keys_in_range_reachable_growing:
  "reachable_growing s \<Longrightarrow> keys_in_range s"
proof (induction rule: reachable_growing.induct)
  case constructed
  show ?case
    by (simp add: keys_in_range_def SceneManager_new_def)
next
  case (built s T ids V)
  show ?case
    unfolding keys_in_range_def BuildScene_fields
  proof
    fix k
    assume "k \<in> dom (triangle_to_reflection_map s)"
    with built.IH have "unat k < num_triangles s"
      by (simp add: keys_in_range_def)
    with built.hyps(2) show "unat k < length T"
      by simp
  qed
next
  case (associated s K S)
  then show ?case
    by (simp add: keys_in_range_Associate)
next
  case (listeners_built s ids L r)
  then show ?case
    by (simp add: keys_in_range_def BuildListenerScene_fields)
qed

theorem keys_in_range_reachable_growing_witness:
  "reachable_growing (snd (AssociateReflectionKernelToTriangles two_triangle_scene ''K'' [1, 7])) \<and>
   \<not> fst (AssociateReflectionKernelToTriangles two_triangle_scene ''K'' [1, 7]) \<and>
   triangle_to_reflection_map
     (snd (AssociateReflectionKernelToTriangles two_triangle_scene ''K'' [1, 7])) 1 = Some 0 \<and>
   keys_in_range (snd (AssociateReflectionKernelToTriangles two_triangle_scene ''K'' [1, 7]))"
proof -
  have "reachable_growing (SceneManager_new :: (real, string) SceneManager)"
    by (rule reachable_growing.constructed)
  then have "reachable_growing two_triangle_scene"
    unfolding two_triangle_scene_def
    by (rule reachable_growing.built) (simp add: SceneManager_new_def)
  then have h: "reachable_growing
      (snd (AssociateReflectionKernelToTriangles two_triangle_scene ''K'' [1, 7]))"
    by (rule reachable_growing.associated)
  have failed: "\<not> fst (AssociateReflectionKernelToTriangles two_triangle_scene ''K'' [1, 7])"
    by (simp add: Associate_fst example_scene_fields)
  have entry: "triangle_to_reflection_map
     (snd (AssociateReflectionKernelToTriangles two_triangle_scene ''K'' [1, 7])) 1 = Some 0"
    by (simp add: Associate_map example_scene_fields)
  from keys_in_range_reachable_growing [OF h] h failed entry show ?thesis
    by blast
qed

text \<open>
  C7. The adapter ends in an assertion failure exactly when the batch width is not 1:
  with a batch width of 1 the assertion never fires.
\<close>

theorem intersect_assertion:
  "EmbreeSphereIntersectFunction f args = Inl AssertionFailure \<longleftrightarrow> N args \<noteq> 1"
  by (simp add: EmbreeSphereIntersectFunction_def Let_def split: list.splits option.splits)

theorem intersect_assertion_witness:
  "N valid_slot_args = 1 \<and>
   EmbreeSphereIntersectFunction enter_distance valid_slot_args \<noteq> Inl AssertionFailure \<and>
   N packet_args = 4 \<and>
   EmbreeSphereIntersectFunction enter_distance packet_args = Inl AssertionFailure"
  using intersect_assertion [of enter_distance valid_slot_args]
    intersect_assertion [of enter_distance packet_args]
  by (simp add: valid_slot_args_def packet_args_def)

text \<open>
  C8. In a call with batch width 1: when the first slot of the validity mask is not -1,
  the adapter returns the ray/hit record as it received it, whatever the sphere
  intersection routine would do; when the slot is -1, the result is what the sphere
  intersection routine leaves for the sphere at the primitive index of the user-data
  array and the ray.
\<close>

theorem intersect_validity_mask:
  "N args = 1 \<Longrightarrow> valid args = first_valid # more_valid \<Longrightarrow>
   (first_valid \<noteq> - 1 \<longrightarrow> EmbreeSphereIntersectFunction f args = Inr (rayhit args)) \<and>
   (first_valid = - 1 \<longrightarrow> geometryUserPtr args = Some spheres \<longrightarrow>
      unat (primID args) < length spheres \<longrightarrow>
      EmbreeSphereIntersectFunction f args
        = Inr (f (spheres ! unat (primID args)) (rayhit args)))"
  by (simp add: EmbreeSphereIntersectFunction_def Let_def)

theorem intersect_validity_mask_witness:
  "N invalid_slot_args = 1 \<and> valid invalid_slot_args = [0] \<and>
   EmbreeSphereIntersectFunction enter_distance invalid_slot_args = Inr 100 \<and>
   N valid_slot_args = 1 \<and> valid valid_slot_args = [- 1] \<and>
   EmbreeSphereIntersectFunction enter_distance valid_slot_args = Inr (9 / 2)"
proof -
  have i1: "N invalid_slot_args = 1" and i2: "valid invalid_slot_args = [0]"
    by (simp_all add: invalid_slot_args_def valid_slot_args_def)
  have v1: "N valid_slot_args = 1" and v2: "valid valid_slot_args = [- 1]"
    and v3: "geometryUserPtr valid_slot_args
               = Some [\<lparr>center = (5, 0, 0), radius = 1 / 2, geometry_id = 0\<rparr>]"
    and v4: "unat (primID valid_slot_args)
               < length [\<lparr>center = (5 :: real, 0 :: real, 0 :: real), radius = 1 / 2,
                          geometry_id = 0\<rparr>]"
    by (simp_all add: valid_slot_args_def)
  from intersect_validity_mask [OF i1 i2, of enter_distance]
  have "EmbreeSphereIntersectFunction enter_distance invalid_slot_args = Inr 100"
    by (simp add: invalid_slot_args_def valid_slot_args_def)
  moreover from intersect_validity_mask [OF v1 v2, of enter_distance] v3 v4
  have "EmbreeSphereIntersectFunction enter_distance valid_slot_args = Inr (9 / 2)"
    by (simp add: valid_slot_args_def enter_distance_def)
  ultimately show ?thesis
    using i1 i2 v1 v2 by blast
qed

text \<open>
  C9. Every call of \<open>AssociateReflectionKernelToTriangles\<close>, whatever it returns, leaves
  the registry as the list before the call with the kernel appended: one entry more.
\<close>

theorem association_appends_kernel:
  "reflections (snd (AssociateReflectionKernelToTriangles s K S)) = reflections s @ [K] \<and>
   length (reflections (snd (AssociateReflectionKernelToTriangles s K S)))
     = length (reflections s) + 1"
  by (simp add: Associate_reflections)

text \<open>
  C10. When two associations in a row both return true and a triangle index is in both
  index sets, \<open>ReflectionKernelForTriangle\<close> yields the first kernel for it after the
  first call and the second kernel after the second call.
\<close>

theorem last_association_wins:
  "fst (AssociateReflectionKernelToTriangles s K1 S1) \<Longrightarrow>
   fst (AssociateReflectionKernelToTriangles
          (snd (AssociateReflectionKernelToTriangles s K1 S1)) K2 S2) \<Longrightarrow>
   i \<in> set S1 \<Longrightarrow> i \<in> set S2 \<Longrightarrow>
   ReflectionKernelForTriangle (snd (AssociateReflectionKernelToTriangles s K1 S1)) i = Some K1 \<and>
   ReflectionKernelForTriangle
     (snd (AssociateReflectionKernelToTriangles
             (snd (AssociateReflectionKernelToTriangles s K1 S1)) K2 S2)) i = Some K2"
  by (simp add: ReflectionKernelForTriangle_Associate)

theorem last_association_wins_witness:
  "fst (AssociateReflectionKernelToTriangles two_triangle_scene ''K1'' [0, 1]) \<and>
   fst (AssociateReflectionKernelToTriangles
          (snd (AssociateReflectionKernelToTriangles two_triangle_scene ''K1'' [0, 1])) ''K2'' [1]) \<and>
   (1 :: uint) \<in> set [0, 1] \<and> (1 :: uint) \<in> set [1] \<and>
   ReflectionKernelForTriangle
     (snd (AssociateReflectionKernelToTriangles two_triangle_scene ''K1'' [0, 1])) 1 = Some ''K1'' \<and>
   ReflectionKernelForTriangle
     (snd (AssociateReflectionKernelToTriangles
             (snd (AssociateReflectionKernelToTriangles two_triangle_scene ''K1'' [0, 1]))
             ''K2'' [1])) 1 = Some ''K2''"
proof -
  have h1: "fst (AssociateReflectionKernelToTriangles two_triangle_scene ''K1'' [0, 1])"
    by (simp add: Associate_fst example_scene_fields)
  have h2: "fst (AssociateReflectionKernelToTriangles
          (snd (AssociateReflectionKernelToTriangles two_triangle_scene ''K1'' [0, 1])) ''K2'' [1])"
    by (simp add: Associate_fst Associate_num_triangles example_scene_fields)
  have h3: "(1 :: uint) \<in> set [0, 1]" and h4: "(1 :: uint) \<in> set [1]"
    by simp_all
  from last_association_wins [OF h1 h2 h3 h4] h1 h2 h3 h4 show ?thesis
    by blast
qed

end
